theory Spec2Isabelle
  imports Main "HOL-Library.AList"
begin

section \<open>Python values, exceptions and the module namespace\<close>

text \<open>
  The values that flow through \<^verbatim>\<open>pyhomematic/devicetypes/generic.py\<close>: parameter values
  received from the coordinator, paramsets (dictionaries from parameter name to value) and the
  opaque objects bound at module level. A dictionary is an association list in insertion
  order whose keys are distinct; \<open>map_of\<close> reads it and \<open>AList.update\<close> is the
  assignment \<^verbatim>\<open>d[k] = v\<close>. Floating point values are left out: no operation of the
  module computes with a value, it only stores, compares with a string or tests truth.
\<close>

datatype pyval =
    PNone
  | PBool bool
  | PInt int
  | PStr string
  | PDict "(string \<times> pyval) list"
  | PObj string

text \<open>Python's truth test (\<^verbatim>\<open>if x:\<close>).\<close>

fun truthy :: "pyval \<Rightarrow> bool" where
  "truthy PNone = False"
| "truthy (PBool b) = b"
| "truthy (PInt i) = (i \<noteq> 0)"
| "truthy (PStr s) = (s \<noteq> [])"
| "truthy (PDict d) = (d \<noteq> [])"
| "truthy (PObj s) = True"

text \<open>
  The exceptions that can arise. All of them are subclasses of \<^verbatim>\<open>Exception\<close>, so an
  \<^verbatim>\<open>except Exception\<close> clause catches each one. \<open>Fault\<close> is a failure raised by
  external code: a transport fault of the proxy, or a failure of an event callback.
\<close>

datatype exn =
    NameError string
  | UnboundLocalError string
  | TypeError
  | KeyError
  | AttributeError
  | Fault string

definition PARAM_OPERATION_READ :: int where "PARAM_OPERATION_READ = 1"
definition PARAM_OPERATION_WRITE :: int where "PARAM_OPERATION_WRITE = 2"
definition PARAM_OPERATION_EVENT :: int where "PARAM_OPERATION_EVENT = 4"
definition PARAM_UNREACH :: string where "PARAM_UNREACH = ''UNREACH''"
definition PARAMSET_VALUES :: string where "PARAMSET_VALUES = ''VALUES''"

text \<open>
  The names bound in the module's global namespace, in the order the module binds them
  (lines 1-11 and the three class statements). A name that a function body reads and that
  is neither a local nor bound here nor a builtin raises \<^verbatim>\<open>NameError\<close> when the
  statement is executed.
\<close>

definition module_globals :: "(string \<times> pyval) list" where
  "module_globals =
    [(''logging'', PObj ''module logging''),
     (''LOG'', PObj ''Logger''),
     (''PARAM_OPERATION_READ'', PInt PARAM_OPERATION_READ),
     (''PARAM_OPERATION_WRITE'', PInt PARAM_OPERATION_WRITE),
     (''PARAM_OPERATION_EVENT'', PInt PARAM_OPERATION_EVENT),
     (''PARAM_UNREACH'', PStr PARAM_UNREACH),
     (''PARAMSET_VALUES'', PStr PARAMSET_VALUES),
     (''HMGeneric'', PObj ''class HMGeneric''),
     (''HMChannel'', PObj ''class HMChannel''),
     (''HMDevice'', PObj ''class HMDevice'')]"

definition load_global :: "string \<Rightarrow> exn + pyval" where
  "load_global n = (case map_of module_globals n of None \<Rightarrow> Inl (NameError n) | Some v \<Rightarrow> Inr v)"

text \<open>\<^verbatim>\<open>s in t\<close> for two strings: \<open>s\<close> occurs in \<open>t\<close> as a contiguous piece.\<close>

fun str_contains :: "string \<Rightarrow> string \<Rightarrow> bool" where
  "str_contains s [] = (s = [])"
| "str_contains s (c # cs) = (take (length s) (c # cs) = s \<or> str_contains s cs)"

text \<open>
  \<^verbatim>\<open>name in container\<close> for a string \<open>name\<close>: key membership for a dictionary,
  substring test for a string, \<^verbatim>\<open>TypeError\<close> for a value that is not iterable.
\<close>

fun py_in :: "string \<Rightarrow> pyval \<Rightarrow> exn + bool" where
  "py_in k (PDict d) = Inr (k \<in> set (map fst d))"
| "py_in k (PStr s) = Inr (str_contains k s)"
| "py_in k v = Inl TypeError"

text \<open>\<^verbatim>\<open>v.get(k)\<close>: only a dictionary has the method.\<close>

fun py_get :: "pyval \<Rightarrow> string \<Rightarrow> exn + pyval" where
  "py_get (PDict d) k = Inr (case map_of d k of None \<Rightarrow> PNone | Some x \<Rightarrow> x)"
| "py_get v k = Inl AttributeError"

section \<open>The proxy, the callbacks and the world outside the entities\<close>

text \<open>
  The proxy is an external object reached by synchronous remote calls. Each call either
  returns a value or raises. What it answers may depend on everything that was asked before,
  so a proxy is a function of the calls made so far and of the present call. The calls made
  are recorded in \<open>proxy_calls\<close>, which is how "no proxy call was made" is stated.
\<close>

datatype call =
    GetValue string string
  | SetValue string string pyval
  | GetParamset string string
  | PutParamset string string pyval
  | GetParamsetDescription string string

type_synonym proxy = "call list \<Rightarrow> call \<Rightarrow> exn + pyval"

text \<open>
  An event callback is an object handed in by the consumer. A callable one has an identity
  and a behaviour: called with \<open>(address, interface_id, key, value)\<close> it returns
  (\<open>None\<close>) or raises (\<open>Some e\<close>). Every call that reaches a callable is recorded in
  \<open>cb_calls\<close>. Callbacks do not reach back into the entity that calls them.
\<close>

datatype callback =
    Callable nat "string \<Rightarrow> string \<Rightarrow> string \<Rightarrow> pyval \<Rightarrow> exn option"
  | NotCallable pyval

type_synonym cbcall = "nat \<times> string \<times> string \<times> string \<times> pyval"

record world =
  proxy_calls :: "call list"
  cb_calls :: "cbcall list"

definition world0 :: world where
  "world0 = \<lparr>proxy_calls = [], cb_calls = []\<rparr>"

definition proxy_call :: "proxy \<Rightarrow> call \<Rightarrow> world \<Rightarrow> (exn + pyval) \<times> world" where
  "proxy_call p c w = (p (proxy_calls w) c, w\<lparr>proxy_calls := proxy_calls w @ [c]\<rparr>)"

text \<open>
  \<^verbatim>\<open>self._proxy.method(...)\<close>: an attribute lookup on \<^verbatim>\<open>None\<close> raises
  \<^verbatim>\<open>AttributeError\<close> before anything is sent.
\<close>

definition call_proxy :: "proxy option \<Rightarrow> call \<Rightarrow> world \<Rightarrow> (exn + pyval) \<times> world" where
  "call_proxy po c w = (case po of None \<Rightarrow> (Inl AttributeError, w) | Some p \<Rightarrow> proxy_call p c w)"

text \<open>\<^verbatim>\<open>hasattr(callback, '__call__')\<close>\<close>

fun is_callable :: "callback \<Rightarrow> bool" where
  "is_callable (Callable n f) = True"
| "is_callable (NotCallable v) = False"

text \<open>\<^verbatim>\<open>callback(address, interface_id, key, value)\<close>\<close>

fun invoke :: "callback \<Rightarrow> string \<Rightarrow> string \<Rightarrow> string \<Rightarrow> pyval \<Rightarrow> world \<Rightarrow> exn option \<times> world" where
  "invoke (Callable n f) a i k v w = (f a i k v, w\<lparr>cb_calls := cb_calls w @ [(n, a, i, k, v)]\<rparr>)"
| "invoke (NotCallable x) a i k v w = (Some TypeError, w)"

section \<open>HMGeneric\<close>

text \<open>
  The fields of \<^verbatim>\<open>HMGeneric\<close> that its methods read or write. The leading underscore of
  the source's private names is replaced by \<open>hm_\<close>. \<open>hm_PARAMSETS\<close> is
  \<^verbatim>\<open>_PARAMSETS\<close>, the paramset names of the description (\<open>None\<close> when the description
  has no such key); \<open>hm_paramsets\<close> is \<^verbatim>\<open>_paramsets\<close>, the cache, which the property
  \<^verbatim>\<open>PARAMSETS\<close> returns. The descriptive fields that no method reads (FAMILY, FLAGS, ID,
  TYPE, VERSION and the paramset descriptions) are left out.
\<close>

record HMGeneric =
  hm_ADDRESS :: string
  hm_PARAMSETS :: "string list option"
  hm_proxy :: "proxy option"
  hm_paramsets :: "(string \<times> pyval) list"
  hm_eventcallbacks :: "callback list"
  hm_unreach :: pyval
  hm_name :: "string option"

definition HMGeneric_init :: "string \<Rightarrow> string list option \<Rightarrow> proxy option \<Rightarrow> HMGeneric" where
  "HMGeneric_init address paramsets p =
     \<lparr>hm_ADDRESS = address, hm_PARAMSETS = paramsets, hm_proxy = p, hm_paramsets = [],
      hm_eventcallbacks = [], hm_unreach = PNone, hm_name = None\<rparr>"

text \<open>The property \<^verbatim>\<open>PARAMSETS\<close> (lines 40-42) returns the cache.\<close>

definition PARAMSETS :: "'a HMGeneric_scheme \<Rightarrow> (string \<times> pyval) list" where
  "PARAMSETS self = hm_paramsets self"

text \<open>
  \<^verbatim>\<open>try: ... except Exception: return False\<close>. The handler only logs, so the state is
  the one the body had reached when it raised.
\<close>

definition except_False :: "(exn + pyval) \<times> 's \<Rightarrow> (exn + pyval) \<times> 's" where
  "except_False r = (case r of (Inl err, s) \<Rightarrow> (Inr (PBool False), s) | (Inr v, s) \<Rightarrow> (Inr v, s))"



text \<open>\<^verbatim>\<open>getValue\<close> (lines 63-72).\<close>

definition getValue_try :: "'a HMGeneric_scheme \<Rightarrow> string \<Rightarrow> world \<Rightarrow> (exn + pyval) \<times> world" where
  "getValue_try self key w =
     (case call_proxy (hm_proxy self) (GetValue (hm_ADDRESS self) key) w of
        (Inl err, w') \<Rightarrow> (Inl err, w')
      | (Inr returnvalue, w') \<Rightarrow> (Inr returnvalue, w'))"

definition getValue :: "'a HMGeneric_scheme \<Rightarrow> string \<Rightarrow> world \<Rightarrow> (exn + pyval) \<times> world" where
  "getValue self key w = except_False (getValue_try self key w)"

text \<open>
  \<^verbatim>\<open>event\<close> (lines 74-85). The loop over the callbacks has no handler: the first callback
  that raises ends the loop and the exception leaves \<^verbatim>\<open>event\<close>.
\<close>

fun event_loop :: "callback list \<Rightarrow> string \<Rightarrow> string \<Rightarrow> string \<Rightarrow> pyval \<Rightarrow> world \<Rightarrow> exn option \<times> world" where
  "event_loop [] a i k v w = (None, w)"
| "event_loop (cb # cbs) a i k v w =
     (case invoke cb a i k v w of
        (Some err, w') \<Rightarrow> (Some err, w')
      | (None, w') \<Rightarrow> event_loop cbs a i k v w')"

definition event :: "'a HMGeneric_scheme \<Rightarrow> string \<Rightarrow> string \<Rightarrow> pyval \<Rightarrow> world
    \<Rightarrow> (exn + pyval) \<times> 'a HMGeneric_scheme \<times> world" where
  "event self interface_id key val w =
     (let self1 = (if key = PARAM_UNREACH then self\<lparr>hm_unreach := val\<rparr> else self) in
      case event_loop (hm_eventcallbacks self1) (hm_ADDRESS self1) interface_id key val w of
        (Some err, w') \<Rightarrow> (Inl err, self1, w')
      | (None, w') \<Rightarrow> (Inr PNone, self1, w'))"

text \<open>
  \<^verbatim>\<open>updateParamset\<close> (lines 97-115). The test after the assignment reads the cache through
  the property \<^verbatim>\<open>PARAMSETS\<close> and asks whether it holds a values-paramset; it does not ask
  which paramset was fetched.
\<close>

definition updateParamset_try :: "'a HMGeneric_scheme \<Rightarrow> string \<Rightarrow> world
    \<Rightarrow> (exn + pyval) \<times> 'a HMGeneric_scheme \<times> world" where
  "updateParamset_try self paramset w =
     (if paramset \<noteq> [] then
        (case hm_proxy self of
           None \<Rightarrow> (Inr (PBool False), self, w)
         | Some p \<Rightarrow>
            (case proxy_call p (GetParamset (hm_ADDRESS self) paramset) w of
               (Inl err, w') \<Rightarrow> (Inl err, self, w')
             | (Inr returnset, w') \<Rightarrow>
                 if truthy returnset then
                   (let self1 = self\<lparr>hm_paramsets := AList.update paramset returnset (hm_paramsets self)\<rparr> in
                    if PARAMSETS self1 \<noteq> [] then
                      (case map_of (PARAMSETS self1) PARAMSET_VALUES of
                         None \<Rightarrow> (Inr (PBool True), self1, w')
                       | Some vals \<Rightarrow>
                           if truthy vals then
                             (case py_get vals PARAM_UNREACH of
                                Inl err \<Rightarrow> (Inl err, self1, w')
                              | Inr u \<Rightarrow> (Inr (PBool True), self1\<lparr>hm_unreach := u\<rparr>, w'))
                           else (Inr (PBool True), self1, w'))
                    else (Inr (PBool True), self1, w'))
                 else (Inr (PBool False), self, w')))
      else (Inr (PBool False), self, w))"

definition updateParamset :: "'a HMGeneric_scheme \<Rightarrow> string \<Rightarrow> world
    \<Rightarrow> (exn + pyval) \<times> 'a HMGeneric_scheme \<times> world" where
  "updateParamset self paramset w = except_False (updateParamset_try self paramset w)"

text \<open>
  \<^verbatim>\<open>updateParamsets\<close> (lines 117-127). The value that \<^verbatim>\<open>updateParamset\<close> returns is
  dropped; iterating over \<^verbatim>\<open>None\<close> raises \<^verbatim>\<open>TypeError\<close>.
\<close>

fun updateParamsets_loop :: "string list \<Rightarrow> 'a HMGeneric_scheme \<Rightarrow> world
    \<Rightarrow> exn option \<times> 'a HMGeneric_scheme \<times> world" where
  "updateParamsets_loop [] self w = (None, self, w)"
| "updateParamsets_loop (ps # pss) self w =
     (case updateParamset self ps w of
        (Inl err, self', w') \<Rightarrow> (Some err, self', w')
      | (Inr r, self', w') \<Rightarrow> updateParamsets_loop pss self' w')"

definition updateParamsets_try :: "'a HMGeneric_scheme \<Rightarrow> world
    \<Rightarrow> (exn + pyval) \<times> 'a HMGeneric_scheme \<times> world" where
  "updateParamsets_try self w =
     (case hm_PARAMSETS self of
        None \<Rightarrow> (Inl TypeError, self, w)
      | Some pss \<Rightarrow>
          (case updateParamsets_loop pss self w of
             (Some err, s) \<Rightarrow> (Inl err, s)
           | (None, s) \<Rightarrow> (Inr (PBool True), s)))"

definition updateParamsets :: "'a HMGeneric_scheme \<Rightarrow> world
    \<Rightarrow> (exn + pyval) \<times> 'a HMGeneric_scheme \<times> world" where
  "updateParamsets self w = except_False (updateParamsets_try self w)"

text \<open>
  \<^verbatim>\<open>putParamset\<close> (lines 129-147). \<^verbatim>\<open>paramset in self._PARAMSETS\<close> raises
  \<^verbatim>\<open>TypeError\<close> when the description had no paramset list.
\<close>

definition putParamset_try :: "'a HMGeneric_scheme \<Rightarrow> string \<Rightarrow> pyval \<Rightarrow> world
    \<Rightarrow> (exn + pyval) \<times> 'a HMGeneric_scheme \<times> world" where
  "putParamset_try self paramset data w =
     (case hm_PARAMSETS self of
        None \<Rightarrow> (Inl TypeError, self, w)
      | Some pss \<Rightarrow>
          if paramset \<in> set pss \<and> truthy data then
            (case call_proxy (hm_proxy self) (PutParamset (hm_ADDRESS self) paramset data) w of
               (Inl err, w') \<Rightarrow> (Inl err, self, w')
             | (Inr r, w') \<Rightarrow>
                 (case updateParamsets self w' of
                    (Inl err, s) \<Rightarrow> (Inl err, s)
                  | (Inr r', s) \<Rightarrow> (Inr (PBool True), s)))
          else (Inr (PBool False), self, w))"

definition putParamset :: "'a HMGeneric_scheme \<Rightarrow> string \<Rightarrow> pyval \<Rightarrow> world
    \<Rightarrow> (exn + pyval) \<times> 'a HMGeneric_scheme \<times> world" where
  "putParamset self paramset data w = except_False (putParamset_try self paramset data w)"

section \<open>HMChannel\<close>

text \<open>
  A channel adds descriptive fields to \<^verbatim>\<open>HMGeneric\<close>; \<^verbatim>\<open>_PARENT\<close> and \<^verbatim>\<open>_INDEX\<close>
  stand for them. The constructor (lines 151-176) names the channel after its address and
  pulls all paramsets when \<^verbatim>\<open>resolveparamsets\<close> is set.
\<close>

record HMChannel = HMGeneric +
  hm_PARENT :: "string option"
  hm_INDEX :: "int option"

definition HMChannel_init :: "string \<Rightarrow> string list option \<Rightarrow> string option \<Rightarrow> int option
    \<Rightarrow> proxy option \<Rightarrow> bool \<Rightarrow> world \<Rightarrow> HMChannel \<times> world" where
  "HMChannel_init address paramsets parent idx p resolveparamsets w =
     (let self = HMGeneric.extend (HMGeneric_init address paramsets p)
                   (HMChannel.fields parent idx);
          self1 = self\<lparr>hm_name := Some address\<rparr>
      in if resolveparamsets then snd (updateParamsets self1 w) else (self1, w))"

text \<open>The property \<^verbatim>\<open>HMChannel.UNREACH\<close> (lines 182-187).\<close>

definition HMChannel_UNREACH :: "HMChannel \<Rightarrow> bool" where
  "HMChannel_UNREACH self = (if truthy (hm_unreach self) then True else False)"

text \<open>\<^verbatim>\<open>HMChannel.setEventCallback\<close> (lines 189-196).\<close>

definition append_callback :: "callback \<Rightarrow> 'a HMGeneric_scheme \<Rightarrow> 'a HMGeneric_scheme" where
  "append_callback callback self = self\<lparr>hm_eventcallbacks := hm_eventcallbacks self @ [callback]\<rparr>"

definition HMChannel_setEventCallback :: "HMChannel \<Rightarrow> callback \<Rightarrow> HMChannel" where
  "HMChannel_setEventCallback self callback =
     (if is_callable callback then append_callback callback self else self)"

section \<open>HMDevice\<close>

text \<open>
  The value a node table gives for a parameter name (lines 205-210): \<^verbatim>\<open>None\<close> (read
  from the device itself), \<^verbatim>\<open>'c'\<close> (the channel the caller names) or a fixed channel
  number.
\<close>

datatype nodechannel = NodeNone | NodeC | NodeIdx int

text \<open>
  \<open>CHILDREN\<close> maps a channel number to the channel object; the device's constructor leaves
  it empty and the server fills it. \<open>ELEMENT\<close> is the value of the property of that name
  for the object's class: \<open>1\<close> in \<^verbatim>\<open>HMDevice\<close> (lines 314-320), and what a subclass
  overrides it with.
\<close>

record HMDevice = HMGeneric +
  CHILDREN :: "(int \<times> HMChannel) list"
  hm_SENSORNODE :: "(string \<times> nodechannel) list"
  hm_BINARYNODE :: "(string \<times> nodechannel) list"
  hm_ATTRIBUTENODE :: "(string \<times> nodechannel) list"
  hm_WRITENODE :: "(string \<times> nodechannel) list"
  ELEMENT :: int

definition HMDevice_init :: "string \<Rightarrow> string list option \<Rightarrow> proxy option \<Rightarrow> HMDevice" where
  "HMDevice_init address paramsets p =
     (let self = HMGeneric.extend (HMGeneric_init address paramsets p)
                   (HMDevice.fields [] [] [] [(''RSSI_DEVICE'', NodeNone)] [] 1)
      in self\<lparr>hm_name := Some address\<rparr>)"

text \<open>The property \<^verbatim>\<open>HMDevice.UNREACH\<close> (lines 242-251).\<close>

fun UNREACH_loop :: "(int \<times> HMChannel) list \<Rightarrow> bool" where
  "UNREACH_loop [] = False"
| "UNREACH_loop ((channel, device) # items) =
     (if HMChannel_UNREACH device then True else UNREACH_loop items)"

definition HMDevice_UNREACH :: "HMDevice \<Rightarrow> bool" where
  "HMDevice_UNREACH self =
     (if truthy (hm_unreach self) then True else UNREACH_loop (CHILDREN self))"

text \<open>
  \<^verbatim>\<open>_getNodeData\<close> (lines 285-297). Line 287 reads the name \<^verbatim>\<open>nodes\<close>, which is not a
  parameter or local of the function; it is looked up in the module's globals.
  \<open>getNodeData_with\<close> is the body from line 287 on, given the value the lookup produced;
  \<open>getNodeData_child\<close> is lines 293-297, reached with the channel number resolved.
\<close>

definition getNodeData_child :: "HMDevice \<Rightarrow> string \<Rightarrow> int \<Rightarrow> world \<Rightarrow> (exn + pyval) \<times> world" where
  "getNodeData_child self name nodeChannel w =
     (if nodeChannel \<le> ELEMENT self then
        (case map_of (CHILDREN self) nodeChannel of
           None \<Rightarrow> (Inl KeyError, w)
         | Some ch \<Rightarrow> getValue ch name w)
      else (Inr PNone, w))"

definition getNodeData_with :: "pyval \<Rightarrow> HMDevice \<Rightarrow> string \<Rightarrow> (string \<times> nodechannel) list \<Rightarrow> int
    \<Rightarrow> world \<Rightarrow> (exn + pyval) \<times> world" where
  "getNodeData_with nodes self name data channel w =
     (case py_in name nodes of
        Inl err \<Rightarrow> (Inl err, w)
      | Inr False \<Rightarrow> (Inr PNone, w)
      | Inr True \<Rightarrow>
          (case map_of data name of
             None \<Rightarrow> (Inl KeyError, w)
           | Some NodeNone \<Rightarrow> getValue self name w
           | Some NodeC \<Rightarrow> getNodeData_child self name channel w
           | Some (NodeIdx n) \<Rightarrow> getNodeData_child self name n w))"

definition getNodeData :: "HMDevice \<Rightarrow> string \<Rightarrow> (string \<times> nodechannel) list \<Rightarrow> int \<Rightarrow> world
    \<Rightarrow> (exn + pyval) \<times> world" where
  "getNodeData self name data channel w =
     (case load_global ''nodes'' of
        Inl err \<Rightarrow> (Inl err, w)
      | Inr nodes \<Rightarrow> getNodeData_with nodes self name data channel w)"

definition getAttributeData :: "HMDevice \<Rightarrow> string \<Rightarrow> int \<Rightarrow> world \<Rightarrow> (exn + pyval) \<times> world" where
  "getAttributeData self name channel w = getNodeData self name (hm_ATTRIBUTENODE self) channel w"

definition getBinaryData :: "HMDevice \<Rightarrow> string \<Rightarrow> int \<Rightarrow> world \<Rightarrow> (exn + pyval) \<times> world" where
  "getBinaryData self name channel w = getNodeData self name (hm_BINARYNODE self) channel w"

definition getSensorData :: "HMDevice \<Rightarrow> string \<Rightarrow> int \<Rightarrow> world \<Rightarrow> (exn + pyval) \<times> world" where
  "getSensorData self name channel w = getNodeData self name (hm_SENSORNODE self) channel w"

definition getWriteData :: "HMDevice \<Rightarrow> string \<Rightarrow> int \<Rightarrow> world \<Rightarrow> (exn + pyval) \<times> world" where
  "getWriteData self name channel w = getNodeData self name (hm_WRITENODE self) channel w"

text \<open>
  \<^verbatim>\<open>writeNodeData\<close> (lines 299-312), arranged as \<^verbatim>\<open>_getNodeData\<close>. Besides the global
  \<^verbatim>\<open>nodes\<close>, both calls of \<^verbatim>\<open>setValue\<close> pass one argument where the method takes
  \<^verbatim>\<open>key\<close> and \<^verbatim>\<open>value\<close>, which raises \<^verbatim>\<open>TypeError\<close> at the call (after the
  child was looked up); and the log statement of line 310 reads the local
  \<^verbatim>\<open>nodeChannel\<close>, which is unbound when the name was not found.
\<close>

definition writeNodeData_child :: "HMDevice \<Rightarrow> string \<Rightarrow> pyval \<Rightarrow> int \<Rightarrow> world \<Rightarrow> (exn + pyval) \<times> world" where
  "writeNodeData_child self name data nodeChannel w =
     (if nodeChannel \<le> ELEMENT self then
        (case map_of (CHILDREN self) nodeChannel of
           None \<Rightarrow> (Inl KeyError, w)
         | Some ch \<Rightarrow> (Inl TypeError, w))
      else (Inr (PBool False), w))"

definition writeNodeData_with :: "pyval \<Rightarrow> HMDevice \<Rightarrow> string \<Rightarrow> pyval \<Rightarrow> int \<Rightarrow> world
    \<Rightarrow> (exn + pyval) \<times> world" where
  "writeNodeData_with nodes self name data channel w =
     (case py_in name nodes of
        Inl err \<Rightarrow> (Inl err, w)
      | Inr False \<Rightarrow> (Inl (UnboundLocalError ''nodeChannel''), w)
      | Inr True \<Rightarrow>
          (case map_of (hm_WRITENODE self) name of
             None \<Rightarrow> (Inl KeyError, w)
           | Some NodeNone \<Rightarrow> (Inl TypeError, w)
           | Some NodeC \<Rightarrow> writeNodeData_child self name data channel w
           | Some (NodeIdx n) \<Rightarrow> writeNodeData_child self name data n w))"

definition writeNodeData :: "HMDevice \<Rightarrow> string \<Rightarrow> pyval \<Rightarrow> int \<Rightarrow> world \<Rightarrow> (exn + pyval) \<times> world" where
  "writeNodeData self name data channel w =
     (case load_global ''nodes'' of
        Inl err \<Rightarrow> (Inl err, w)
      | Inr nodes \<Rightarrow> writeNodeData_with nodes self name data channel w)"

text \<open>\<^verbatim>\<open>HMDevice.setEventCallback\<close> (lines 322-336).\<close>

definition HMDevice_setEventCallback :: "HMDevice \<Rightarrow> callback \<Rightarrow> bool \<Rightarrow> int \<Rightarrow> HMDevice" where
  "HMDevice_setEventCallback self callback bequeath channel =
     (if is_callable callback then
        (let self1 =
           (if channel = 0 then append_callback callback self
            else if \<not> bequeath \<and> channel > 0 \<and> channel \<in> set (map fst (CHILDREN self)) then
              self\<lparr>CHILDREN := AList.map_entry channel (append_callback callback) (CHILDREN self)\<rparr>
            else self)
         in if bequeath then
              self1\<lparr>CHILDREN := map (\<lambda>(channel, device). (channel, append_callback callback device))
                                    (CHILDREN self1)\<rparr>
            else self1)
      else self)"

section \<open>Entities used in the examples\<close>

text \<open>
  \<open>proxy_ok\<close> answers every \<^verbatim>\<open>getParamset\<close> with a paramset that reports the entity as
  reachable and every other call with \<^verbatim>\<open>None\<close>; \<open>proxy_down\<close> fails every call;
  \<open>proxy_unreach\<close> reports the entity as unreachable in its values-paramset.
\<close>

definition proxy_ok :: proxy where
  "proxy_ok h c =
     (case c of GetParamset a ps \<Rightarrow> Inr (PDict [(''UNREACH'', PBool False)]) | _ \<Rightarrow> Inr PNone)"

definition proxy_down :: proxy where
  "proxy_down h c = Inl (Fault ''connection refused'')"

definition proxy_unreach :: proxy where
  "proxy_unreach h c =
     (case c of
        GetParamset a ps \<Rightarrow>
          if ps = ''VALUES'' then Inr (PDict [(''UNREACH'', PBool True)])
          else Inr (PDict [(''AES_ACTIVE'', PBool False)])
      | _ \<Rightarrow> Inr PNone)"

text \<open>Three listeners: the first raises whenever it is called, the others return.\<close>

definition cb_fails :: callback where
  "cb_fails = Callable 1 (\<lambda>a i k v. Some (Fault ''listener failed''))"

definition cb_logs :: callback where
  "cb_logs = Callable 2 (\<lambda>a i k v. None)"

definition cb_other :: callback where
  "cb_other = Callable 3 (\<lambda>a i k v. None)"

text \<open>A device \<^verbatim>\<open>D001\<close> as the server sets it up, with its channels 1 and 2.\<close>

definition channel1 :: HMChannel where
  "channel1 = fst (HMChannel_init ''D001:1'' (Some [''VALUES'', ''MASTER'']) (Some ''D001'') (Some 1)
                     (Some proxy_ok) False world0)"

definition channel2 :: HMChannel where
  "channel2 = fst (HMChannel_init ''D001:2'' (Some [''VALUES'', ''MASTER'']) (Some ''D001'') (Some 2)
                     (Some proxy_ok) False world0)"

definition device1 :: HMDevice where
  "device1 = (HMDevice_init ''D001'' (Some [''MASTER'']) (Some proxy_ok))
               \<lparr>CHILDREN := [(1, channel1), (2, channel2)]\<rparr>"

text \<open>The same device of a type whose sensor table sends \<^verbatim>\<open>TEMPERATURE\<close> to the channel the caller names.\<close>

definition device1_sensor :: HMDevice where
  "device1_sensor = device1\<lparr>hm_SENSORNODE := [(''TEMPERATURE'', NodeC)], ELEMENT := 2\<rparr>"

text \<open>\<open>device1\<close> after the server has delivered \<^verbatim>\<open>UNREACH = True\<close> to channel 2.\<close>

definition device1_ch2_lost :: HMDevice where
  "device1_ch2_lost =
     device1\<lparr>CHILDREN := AList.map_entry 2
                (\<lambda>ch. fst (snd (event ch ''iface'' ''UNREACH'' (PBool True) world0))) (CHILDREN device1)\<rparr>"

text \<open>
  A channel whose values-paramset reports it unreachable, and the state it is in after a
  refresh of \<^verbatim>\<open>VALUES\<close> followed by an event that reports it reachable again.
\<close>

definition channel3 :: HMChannel where
  "channel3 = fst (HMChannel_init ''D001:3'' (Some [''VALUES'', ''MASTER'']) (Some ''D001'') (Some 3)
                     (Some proxy_unreach) False world0)"

definition channel3_reached :: "HMChannel \<times> world" where
  "channel3_reached =
     (case updateParamset channel3 ''VALUES'' world0 of
        (r1, self1, w1) \<Rightarrow> snd (event self1 ''iface'' ''UNREACH'' (PBool False) w1))"

text \<open>
  A proxy that answers \<^verbatim>\<open>getParamset\<close> until the first \<^verbatim>\<open>putParamset\<close> has been
  sent and fails every \<^verbatim>\<open>getParamset\<close> after it, and a channel constructed over it with
  \<^verbatim>\<open>resolveparamsets\<close> set, so that its cache holds the values fetched at construction.
\<close>

fun is_put :: "call \<Rightarrow> bool" where
  "is_put (PutParamset a ps d) = True"
| "is_put c = False"

definition proxy_stalls :: proxy where
  "proxy_stalls h c =
     (case c of
        GetParamset a ps \<Rightarrow>
          if list_ex is_put h then Inl (Fault ''timeout'')
          else Inr (PDict [(''STATE'', PBool False)])
      | _ \<Rightarrow> Inr PNone)"

definition channel4 :: "HMChannel \<times> world" where
  "channel4 = HMChannel_init ''D001:4'' (Some [''VALUES'']) (Some ''D001'') (Some 4)
                (Some proxy_stalls) True world0"

section \<open>Facts shared by the proofs\<close>

lemmas eval_defs = HMGeneric_init_def world0_def putParamset_def putParamset_try_def except_False_def
  call_proxy_def proxy_call_def updateParamsets_def updateParamsets_try_def updateParamset_def
  updateParamset_try_def PARAMSETS_def PARAMSET_VALUES_def PARAM_UNREACH_def

lemma channel1_eq: "channel1 = \<lparr>hm_ADDRESS = ''D001:1'', hm_PARAMSETS = Some [''VALUES'', ''MASTER''], hm_proxy = Some proxy_ok,
   hm_paramsets = [], hm_eventcallbacks = [], hm_unreach = PNone, hm_name = Some ''D001:1'',
   hm_PARENT = Some ''D001'', hm_INDEX = Some 1\<rparr>"
  by (simp add: channel1_def HMChannel_init_def HMGeneric_init_def HMGeneric.extend_def HMChannel.fields_def)

lemma channel2_eq: "channel2 = \<lparr>hm_ADDRESS = ''D001:2'', hm_PARAMSETS = Some [''VALUES'', ''MASTER''], hm_proxy = Some proxy_ok,
   hm_paramsets = [], hm_eventcallbacks = [], hm_unreach = PNone, hm_name = Some ''D001:2'',
   hm_PARENT = Some ''D001'', hm_INDEX = Some 2\<rparr>"
  by (simp add: channel2_def HMChannel_init_def HMGeneric_init_def HMGeneric.extend_def HMChannel.fields_def)

lemma device1_eq: "device1 = \<lparr>hm_ADDRESS = ''D001'', hm_PARAMSETS = Some [''MASTER''], hm_proxy = Some proxy_ok,
   hm_paramsets = [], hm_eventcallbacks = [], hm_unreach = PNone, hm_name = Some ''D001'',
   CHILDREN = [(1, channel1), (2, channel2)], hm_SENSORNODE = [], hm_BINARYNODE = [],
   hm_ATTRIBUTENODE = [(''RSSI_DEVICE'', NodeNone)], hm_WRITENODE = [], ELEMENT = 1\<rparr>"
  by (simp add: device1_def HMDevice_init_def HMGeneric_init_def HMGeneric.extend_def HMDevice.fields_def)

lemma channel3_eq: "channel3 = \<lparr>hm_ADDRESS = ''D001:3'', hm_PARAMSETS = Some [''VALUES'', ''MASTER''], hm_proxy = Some proxy_unreach,
   hm_paramsets = [], hm_eventcallbacks = [], hm_unreach = PNone, hm_name = Some ''D001:3'',
   hm_PARENT = Some ''D001'', hm_INDEX = Some 3\<rparr>"
  by (simp add: channel3_def HMChannel_init_def HMGeneric_init_def HMGeneric.extend_def HMChannel.fields_def)

lemma channel3_VALUES:
  "updateParamset channel3 ''VALUES'' world0 =
     (Inr (PBool True),
      channel3\<lparr>hm_paramsets := [(''VALUES'', PDict [(''UNREACH'', PBool True)])], hm_unreach := PBool True\<rparr>,
      \<lparr>proxy_calls = [GetParamset ''D001:3'' ''VALUES''], cb_calls = []\<rparr>)"
  by (simp add: channel3_eq eval_defs proxy_unreach_def)

lemma channel3_reached_eq:
  "channel3_reached =
     (channel3\<lparr>hm_paramsets := [(''VALUES'', PDict [(''UNREACH'', PBool True)])], hm_unreach := PBool False\<rparr>,
      \<lparr>proxy_calls = [GetParamset ''D001:3'' ''VALUES''], cb_calls = []\<rparr>)"
  by (simp add: channel3_reached_def channel3_VALUES event_def PARAM_UNREACH_def) (simp add: channel3_eq)

lemma channel3_MASTER:
  "updateParamset (fst channel3_reached) ''MASTER'' (snd channel3_reached) =
     (Inr (PBool True),
      channel3\<lparr>hm_paramsets := [(''VALUES'', PDict [(''UNREACH'', PBool True)]),
                                (''MASTER'', PDict [(''AES_ACTIVE'', PBool False)])],
               hm_unreach := PBool True\<rparr>,
      \<lparr>proxy_calls = [GetParamset ''D001:3'' ''VALUES'', GetParamset ''D001:3'' ''MASTER''], cb_calls = []\<rparr>)"
  by (simp add: channel3_reached_eq channel3_eq eval_defs proxy_unreach_def)

lemma channel4_eq:
  "channel4 =
     (\<lparr>hm_ADDRESS = ''D001:4'', hm_PARAMSETS = Some [''VALUES''], hm_proxy = Some proxy_stalls,
       hm_paramsets = [(''VALUES'', PDict [(''STATE'', PBool False)])], hm_eventcallbacks = [],
       hm_unreach = PNone, hm_name = Some ''D001:4'', hm_PARENT = Some ''D001'', hm_INDEX = Some 4\<rparr>,
      \<lparr>proxy_calls = [GetParamset ''D001:4'' ''VALUES''], cb_calls = []\<rparr>)"
  by (simp add: channel4_def HMChannel_init_def HMGeneric.extend_def HMChannel.fields_def eval_defs
      proxy_stalls_def)

text \<open>
  What \<^verbatim>\<open>updateParamset\<close> does to the cache: the entry of the refreshed name is replaced
  by what the proxy returned when that is a non-empty value, and nothing changes when there
  is no name, no proxy, a fault or an empty answer.
\<close>

lemma updateParamset_cache:
  "hm_paramsets (fst (snd (updateParamset s ps v))) =
     (case (if ps = [] then None else hm_proxy s) of
        None \<Rightarrow> hm_paramsets s
      | Some p \<Rightarrow>
          (case p (proxy_calls v) (GetParamset (hm_ADDRESS s) ps) of
             Inl e \<Rightarrow> hm_paramsets s
           | Inr returnset \<Rightarrow>
               if truthy returnset then AList.update ps returnset (hm_paramsets s)
               else hm_paramsets s))"
  by (simp add: updateParamset_def updateParamset_try_def except_False_def proxy_call_def Let_def
      PARAMSETS_def split: option.splits sum.splits prod.splits)

lemma except_False_never_raises: "fst (except_False r) \<noteq> Inl e"
  by (auto simp: except_False_def split: prod.splits sum.splits)

lemma updateParamset_never_raises: "fst (updateParamset self ps w) \<noteq> Inl e"
  by (simp add: updateParamset_def except_False_never_raises)

text \<open>
  The loop of \<^verbatim>\<open>updateParamsets\<close> never ends early: it runs \<^verbatim>\<open>updateParamset\<close> for
  each name in turn, threading the entity and the world through, and drops each result.
\<close>

lemma updateParamsets_loop_fold:
  "updateParamsets_loop pss self w =
     (None, foldl (\<lambda>(s, w') ps. snd (updateParamset s ps w')) (self, w) pss)"
proof (induction pss arbitrary: self w)
  case Nil
  show ?case by simp
next
  case (Cons ps pss)
  obtain r s' w' where u: "updateParamset self ps w = (r, s', w')"
    by (cases "updateParamset self ps w") auto
  with updateParamset_never_raises [of self ps w] obtain v where "r = Inr v"
    by (cases r) auto
  with u Cons.IH [of s' w'] show ?case by simp
qed

lemma event_loop_returning_prefix:
  "\<forall>(n, f) \<in> set pre. f a i k v = None \<Longrightarrow>
   event_loop (map (\<lambda>(n, f). Callable n f) pre @ rest) a i k v w =
   event_loop rest a i k v (w\<lparr>cb_calls := cb_calls w @ map (\<lambda>(n, f). (n, a, i, k, v)) pre\<rparr>)"
proof (induction pre arbitrary: w)
  case Nil
  show ?case by simp
next
  case (Cons nf pre)
  obtain n f where nf: "nf = (n, f)" by (cases nf)
  with Cons.prems have "f a i k v = None" and "\<forall>(n, f) \<in> set pre. f a i k v = None"
    by auto
  with Cons.IH nf show ?case by simp
qed

lemma event_by_loop:
  "fst (event self interface_id key val w) =
     (case fst (event_loop (hm_eventcallbacks self) (hm_ADDRESS self) interface_id key val w) of
        None \<Rightarrow> Inr PNone | Some err \<Rightarrow> Inl err)
   \<and> snd (snd (event self interface_id key val w)) =
     snd (event_loop (hm_eventcallbacks self) (hm_ADDRESS self) interface_id key val w)"
proof -
  obtain r w' where l:
    "event_loop (hm_eventcallbacks self) (hm_ADDRESS self) interface_id key val w = (r, w')"
    by (cases "event_loop (hm_eventcallbacks self) (hm_ADDRESS self) interface_id key val w")
  then show ?thesis
    by (cases r) (auto simp: event_def Let_def)
qed

lemma UNREACH_loop_iff:
  "UNREACH_loop items \<longleftrightarrow> (\<exists>device \<in> snd ` set items. HMChannel_UNREACH device)"
  by (induction items rule: UNREACH_loop.induct) auto

text \<open>
  No scope binds \<^verbatim>\<open>nodes\<close>, so the first statement of \<^verbatim>\<open>_getNodeData\<close> and of
  \<^verbatim>\<open>writeNodeData\<close> raises, whatever the arguments.
\<close>

lemma getNodeData_NameError:
  "getNodeData self name data channel w = (Inl (NameError ''nodes''), w)"
  by (simp add: getNodeData_def load_global_def module_globals_def)

lemma writeNodeData_NameError:
  "writeNodeData self name data channel w = (Inl (NameError ''nodes''), w)"
  by (simp add: writeNodeData_def load_global_def module_globals_def)

text \<open>
  The write path has a second obstacle, which does not depend on \<^verbatim>\<open>nodes\<close>: whatever
  that name were bound to, the body of \<^verbatim>\<open>writeNodeData\<close> never reaches the proxy and never
  returns \<^verbatim>\<open>True\<close>.
\<close>

lemma writeNodeData_with_never_writes:
  "snd (writeNodeData_with nodes self name data channel w) = w
   \<and> fst (writeNodeData_with nodes self name data channel w) \<noteq> Inr (PBool True)"
  by (auto simp: writeNodeData_with_def writeNodeData_child_def
      split: sum.splits bool.splits option.splits nodechannel.splits)

section \<open>C1: node-data resolution\<close>

text \<open>
  C1 says that for a parameter name present in the selected node table the read or write is
  dispatched by the table's entry: to the device's own \<^verbatim>\<open>getValue\<close>/\<^verbatim>\<open>setValue\<close> for
  \<^verbatim>\<open>None\<close>, to the channel the caller names for \<^verbatim>\<open>'c'\<close>, to the fixed channel
  otherwise. The code does not get that far. On a freshly constructed device, whose
  attribute table maps \<^verbatim>\<open>RSSI_DEVICE\<close> to \<^verbatim>\<open>None\<close>,
  \<^verbatim>\<open>getAttributeData('RSSI_DEVICE')\<close> raises \<^verbatim>\<open>NameError\<close> and the proxy is never asked,
  where the device's own \<^verbatim>\<open>getValue('RSSI_DEVICE')\<close> asks the proxy and returns its answer.
  On a device with channels 1 and 2 whose sensor table maps \<^verbatim>\<open>TEMPERATURE\<close> to
  \<^verbatim>\<open>'c'\<close>, \<^verbatim>\<open>getSensorData('TEMPERATURE', 2)\<close> raises the same error where
  \<^verbatim>\<open>getValue('TEMPERATURE')\<close> of channel 2 asks the proxy.
\<close>

theorem getNodeData_mapped_name_raises:
  "map_of (hm_ATTRIBUTENODE (HMDevice_init ''D001'' None (Some proxy_ok))) ''RSSI_DEVICE'' = Some NodeNone
   \<and> getAttributeData (HMDevice_init ''D001'' None (Some proxy_ok)) ''RSSI_DEVICE'' 1 world0
       = (Inl (NameError ''nodes''), world0)
   \<and> getValue (HMDevice_init ''D001'' None (Some proxy_ok)) ''RSSI_DEVICE'' world0
       = (Inr PNone, \<lparr>proxy_calls = [GetValue ''D001'' ''RSSI_DEVICE''], cb_calls = []\<rparr>)
   \<and> map_of (hm_SENSORNODE device1_sensor) ''TEMPERATURE'' = Some NodeC
   \<and> map_of (CHILDREN device1_sensor) 2 = Some channel2
   \<and> getSensorData device1_sensor ''TEMPERATURE'' 2 world0 = (Inl (NameError ''nodes''), world0)
   \<and> getValue channel2 ''TEMPERATURE'' world0
       = (Inr PNone, \<lparr>proxy_calls = [GetValue ''D001:2'' ''TEMPERATURE''], cb_calls = []\<rparr>)"
proof -
  have "getAttributeData (HMDevice_init ''D001'' None (Some proxy_ok)) ''RSSI_DEVICE'' 1 world0
       = (Inl (NameError ''nodes''), world0)"
    by (simp add: getAttributeData_def getNodeData_NameError)
  moreover have "getSensorData device1_sensor ''TEMPERATURE'' 2 world0 = (Inl (NameError ''nodes''), world0)"
    by (simp add: getSensorData_def getNodeData_NameError)
  moreover have "map_of (hm_ATTRIBUTENODE (HMDevice_init ''D001'' None (Some proxy_ok))) ''RSSI_DEVICE''
       = Some NodeNone"
    by (simp add: HMDevice_init_def HMGeneric_init_def HMGeneric.extend_def HMDevice.fields_def)
  moreover have "getValue (HMDevice_init ''D001'' None (Some proxy_ok)) ''RSSI_DEVICE'' world0
       = (Inr PNone, \<lparr>proxy_calls = [GetValue ''D001'' ''RSSI_DEVICE''], cb_calls = []\<rparr>)"
    by (simp add: HMDevice_init_def HMGeneric_init_def HMGeneric.extend_def HMDevice.fields_def
        getValue_def getValue_try_def except_False_def call_proxy_def proxy_call_def proxy_ok_def
        world0_def)
  moreover have "map_of (hm_SENSORNODE device1_sensor) ''TEMPERATURE'' = Some NodeC"
    by (simp add: device1_sensor_def)
  moreover have "map_of (CHILDREN device1_sensor) 2 = Some channel2"
    by (simp add: device1_sensor_def device1_eq)
  moreover have "getValue channel2 ''TEMPERATURE'' world0
       = (Inr PNone, \<lparr>proxy_calls = [GetValue ''D001:2'' ''TEMPERATURE''], cb_calls = []\<rparr>)"
    by (simp add: channel2_eq getValue_def getValue_try_def except_False_def call_proxy_def
        proxy_call_def proxy_ok_def world0_def)
  ultimately show ?thesis by simp
qed

section \<open>C2: unmapped names and channel numbers out of range\<close>

text \<open>
  C2 says that a read or write of a name that is absent from the node table, or that resolves
  to a channel number out of range, fails with a failure result before any proxy call. On a
  freshly constructed device the sensor and write tables are empty; \<^verbatim>\<open>getSensorData\<close> and
  \<^verbatim>\<open>writeNodeData\<close> of an unmapped name make no proxy call, but instead of the failure
  results of lines 297 and 312 (\<^verbatim>\<open>None\<close>, \<^verbatim>\<open>False\<close>) they raise \<^verbatim>\<open>NameError\<close>
  to the caller.
\<close>

theorem getNodeData_unmapped_name_raises:
  "map_of (hm_SENSORNODE (HMDevice_init ''D001'' None (Some proxy_ok))) ''TEMPERATURE'' = None
   \<and> getSensorData (HMDevice_init ''D001'' None (Some proxy_ok)) ''TEMPERATURE'' 1 world0
       = (Inl (NameError ''nodes''), world0)
   \<and> map_of (hm_WRITENODE (HMDevice_init ''D001'' None (Some proxy_ok))) ''STATE'' = None
   \<and> writeNodeData (HMDevice_init ''D001'' None (Some proxy_ok)) ''STATE'' (PBool True) 1 world0
       = (Inl (NameError ''nodes''), world0)"
  by (simp add: getSensorData_def getNodeData_NameError writeNodeData_NameError)
     (simp add: HMDevice_init_def HMGeneric_init_def HMGeneric.extend_def HMDevice.fields_def)

section \<open>C3: bequeathing an event callback\<close>

text \<open>
  C3, as amended. Registering a callable on a device with \<^verbatim>\<open>bequeath\<close> set appends it
  once to the callback list of every child channel, whatever the \<^verbatim>\<open>channel\<close> argument; it
  is appended to the device's own list exactly when \<^verbatim>\<open>channel\<close> is 0. With N children
  that is N+1 registrations for channel 0 and N otherwise.
\<close>

theorem setEventCallback_bequeath:
  assumes "is_callable callback"
  shows "CHILDREN (HMDevice_setEventCallback self callback True channel)
           = map (\<lambda>(c, device). (c, device\<lparr>hm_eventcallbacks := hm_eventcallbacks device @ [callback]\<rparr>))
               (CHILDREN self)
       \<and> hm_eventcallbacks (HMDevice_setEventCallback self callback True channel)
           = (if channel = 0 then hm_eventcallbacks self @ [callback] else hm_eventcallbacks self)"
  using assms by (simp add: HMDevice_setEventCallback_def append_callback_def)

theorem setEventCallback_witness:
  "hm_eventcallbacks (HMDevice_setEventCallback device1 cb_logs True 0) = [cb_logs]
   \<and> hm_eventcallbacks (HMDevice_setEventCallback device1 cb_logs True 2) = []
   \<and> map (\<lambda>(c, device). hm_eventcallbacks device) (CHILDREN (HMDevice_setEventCallback device1 cb_logs True 0))
       = [[cb_logs], [cb_logs]]
   \<and> map (\<lambda>(c, device). hm_eventcallbacks device) (CHILDREN (HMDevice_setEventCallback device1 cb_logs True 2))
       = [[cb_logs], [cb_logs]]"
proof -
  have c: "is_callable cb_logs" by (simp add: cb_logs_def)
  from setEventCallback_bequeath [OF c, of device1 0] setEventCallback_bequeath [OF c, of device1 2]
  show ?thesis
    by (simp add: device1_eq channel1_eq channel2_eq)
qed

text \<open>
  The claim as stated fails for a channel argument other than 0: the listener reaches both
  children of \<open>device1\<close> and not the device's own list.
\<close>

theorem setEventCallback_counterexample:
  "is_callable cb_logs
   \<and> length (CHILDREN device1) = 2
   \<and> cb_logs \<notin> set (hm_eventcallbacks (HMDevice_setEventCallback device1 cb_logs True 1))
   \<and> map (\<lambda>(c, device). hm_eventcallbacks device) (CHILDREN (HMDevice_setEventCallback device1 cb_logs True 1))
       = [[cb_logs], [cb_logs]]"
  by (simp add: device1_eq channel1_eq channel2_eq cb_logs_def HMDevice_setEventCallback_def append_callback_def)

section \<open>C4: what updateParamsets reports\<close>

text \<open>
  C4, as amended. \<^verbatim>\<open>updateParamsets\<close> runs \<^verbatim>\<open>updateParamset\<close> for every paramset name
  of the entity's description, in the order of the description, and returns \<^verbatim>\<open>True\<close>
  whatever the individual refreshes returned: the final entity and world are those of the
  refreshes run one after the other. It returns \<^verbatim>\<open>False\<close>, having done nothing, only when
  the description has no paramset list.
\<close>

theorem updateParamsets_ignores_individual_results:
  "(hm_PARAMSETS self = Some pss \<longrightarrow>
      updateParamsets self w =
        (Inr (PBool True), foldl (\<lambda>(s, w') ps. snd (updateParamset s ps w')) (self, w) pss))
   \<and> (hm_PARAMSETS self = None \<longrightarrow> updateParamsets self w = (Inr (PBool False), self, w))"
  by (simp add: updateParamsets_def updateParamsets_try_def except_False_def updateParamsets_loop_fold)

text \<open>
  With a proxy that fails every call, both refreshes are attempted, both fail, and the
  aggregate result is \<^verbatim>\<open>True\<close>; without a paramset list the result is \<^verbatim>\<open>False\<close>.
\<close>

theorem updateParamsets_witness:
  "updateParamsets (HMGeneric_init ''D001:1'' (Some [''MASTER'', ''VALUES'']) (Some proxy_down)) world0
     = (Inr (PBool True), HMGeneric_init ''D001:1'' (Some [''MASTER'', ''VALUES'']) (Some proxy_down),
        \<lparr>proxy_calls = [GetParamset ''D001:1'' ''MASTER'', GetParamset ''D001:1'' ''VALUES''], cb_calls = []\<rparr>)
   \<and> updateParamsets (HMGeneric_init ''D001:1'' None (Some proxy_down)) world0
     = (Inr (PBool False), HMGeneric_init ''D001:1'' None (Some proxy_down), world0)"
proof -
  let ?self = "HMGeneric_init ''D001:1'' (Some [''MASTER'', ''VALUES'']) (Some proxy_down)"
  let ?none = "HMGeneric_init ''D001:1'' None (Some proxy_down)"
  have a: "hm_PARAMSETS ?self = Some [''MASTER'', ''VALUES'']" by (simp add: HMGeneric_init_def)
  have b: "hm_PARAMSETS ?none = None" by (simp add: HMGeneric_init_def)
  have c: "foldl (\<lambda>(s, w') ps. snd (updateParamset s ps w')) (?self, world0) [''MASTER'', ''VALUES'']
     = (?self, \<lparr>proxy_calls = [GetParamset ''D001:1'' ''MASTER'', GetParamset ''D001:1'' ''VALUES''], cb_calls = []\<rparr>)"
    by (simp add: eval_defs proxy_down_def)
  from updateParamsets_ignores_individual_results [of ?self "[''MASTER'', ''VALUES'']" world0] a
  have "updateParamsets ?self world0 =
        (Inr (PBool True), foldl (\<lambda>(s, w') ps. snd (updateParamset s ps w')) (?self, world0) [''MASTER'', ''VALUES''])"
    by blast
  moreover from updateParamsets_ignores_individual_results [of ?none "[]" world0] b
  have "updateParamsets ?none world0 = (Inr (PBool False), ?none, world0)"
    by blast
  ultimately show ?thesis unfolding c by simp
qed

text \<open>
  The claim as stated fails: the only refresh fails and \<^verbatim>\<open>updateParamsets\<close> still
  reports success.
\<close>

theorem updateParamsets_counterexample:
  "fst (updateParamset (HMGeneric_init ''D001:1'' (Some [''VALUES'']) (Some proxy_down)) ''VALUES'' world0)
     = Inr (PBool False)
   \<and> fst (updateParamsets (HMGeneric_init ''D001:1'' (Some [''VALUES'']) (Some proxy_down)) world0)
     = Inr (PBool True)"
  by (simp add: eval_defs proxy_down_def)

section \<open>C5: a callback that raises during event delivery\<close>

text \<open>
  C5, as amended. During event delivery the callbacks are called in registration order up to
  and including the first one that raises; its failure leaves \<^verbatim>\<open>event\<close>, so it reaches
  the server that delivered the event, and the callbacks registered after it are not called.
  When no callback raises, every registered callback is called, in registration order.
\<close>

theorem event_stops_at_first_failing_callback:
  assumes "\<forall>(n, f) \<in> set pre. f (hm_ADDRESS self) interface_id key val = None"
  shows "(hm_eventcallbacks self = map (\<lambda>(n, f). Callable n f) pre \<longrightarrow>
            fst (event self interface_id key val w) = Inr PNone \<and>
            cb_calls (snd (snd (event self interface_id key val w)))
              = cb_calls w @ map (\<lambda>(n, f). (n, hm_ADDRESS self, interface_id, key, val)) pre)
       \<and> (hm_eventcallbacks self = map (\<lambda>(n, f). Callable n f) pre @ Callable m g # post
            \<and> g (hm_ADDRESS self) interface_id key val = Some err \<longrightarrow>
            fst (event self interface_id key val w) = Inl err \<and>
            cb_calls (snd (snd (event self interface_id key val w)))
              = cb_calls w @ map (\<lambda>(n, f). (n, hm_ADDRESS self, interface_id, key, val)) (pre @ [(m, g)]))"
proof (intro conjI impI)
  assume h: "hm_eventcallbacks self = map (\<lambda>(n, f). Callable n f) pre"
  from event_loop_returning_prefix [OF assms, of "[]" w]
  have l: "event_loop (hm_eventcallbacks self) (hm_ADDRESS self) interface_id key val w =
        (None, w\<lparr>cb_calls := cb_calls w @ map (\<lambda>(n, f). (n, hm_ADDRESS self, interface_id, key, val)) pre\<rparr>)"
    using h by simp
  from l show "fst (event self interface_id key val w) = Inr PNone"
    by (simp add: event_by_loop)
  from l show "cb_calls (snd (snd (event self interface_id key val w)))
              = cb_calls w @ map (\<lambda>(n, f). (n, hm_ADDRESS self, interface_id, key, val)) pre"
    by (simp add: event_by_loop)
next
  assume h: "hm_eventcallbacks self = map (\<lambda>(n, f). Callable n f) pre @ Callable m g # post
            \<and> g (hm_ADDRESS self) interface_id key val = Some err"
  from event_loop_returning_prefix [OF assms, of "Callable m g # post" w] h
  have l: "event_loop (hm_eventcallbacks self) (hm_ADDRESS self) interface_id key val w =
        (Some err, w\<lparr>cb_calls := cb_calls w @ map (\<lambda>(n, f). (n, hm_ADDRESS self, interface_id, key, val)) (pre @ [(m, g)])\<rparr>)"
    by simp
  from l show "fst (event self interface_id key val w) = Inl err"
    by (simp add: event_by_loop)
  from l show "cb_calls (snd (snd (event self interface_id key val w)))
              = cb_calls w @ map (\<lambda>(n, f). (n, hm_ADDRESS self, interface_id, key, val)) (pre @ [(m, g)])"
    by (simp add: event_by_loop)
qed

theorem event_witness:
  "fst (event (HMChannel_setEventCallback channel1 cb_logs) ''iface'' ''STATE'' (PBool True) world0)
     = Inr PNone
   \<and> cb_calls (snd (snd (event (HMChannel_setEventCallback channel1 cb_logs) ''iface'' ''STATE'' (PBool True) world0)))
     = [(2, ''D001:1'', ''iface'', ''STATE'', PBool True)]
   \<and> fst (event (HMChannel_setEventCallback (HMChannel_setEventCallback
              (HMChannel_setEventCallback channel1 cb_logs) cb_fails) cb_other)
            ''iface'' ''STATE'' (PBool True) world0)
     = Inl (Fault ''listener failed'')
   \<and> cb_calls (snd (snd (event (HMChannel_setEventCallback (HMChannel_setEventCallback
              (HMChannel_setEventCallback channel1 cb_logs) cb_fails) cb_other)
            ''iface'' ''STATE'' (PBool True) world0)))
     = [(2, ''D001:1'', ''iface'', ''STATE'', PBool True), (1, ''D001:1'', ''iface'', ''STATE'', PBool True)]"
proof -
  let ?f = "\<lambda>(a::string) (i::string) (k::string) (v::pyval). None :: exn option"
  let ?g = "\<lambda>(a::string) (i::string) (k::string) (v::pyval). Some (Fault ''listener failed'')"
  let ?A = "HMChannel_setEventCallback channel1 cb_logs"
  let ?B = "HMChannel_setEventCallback (HMChannel_setEventCallback ?A cb_fails) cb_other"
  have pre: "\<forall>(n, f) \<in> set [(2, ?f)]. f a ''iface'' ''STATE'' (PBool True) = None" for a
    by simp
  have A: "hm_eventcallbacks ?A = map (\<lambda>(n, f). Callable n f) [(2, ?f)]" "hm_ADDRESS ?A = ''D001:1''"
    by (simp_all add: channel1_eq HMChannel_setEventCallback_def append_callback_def cb_logs_def)
  have B: "hm_eventcallbacks ?B = map (\<lambda>(n, f). Callable n f) [(2, ?f)] @ Callable 1 ?g # [cb_other]
           \<and> ?g (hm_ADDRESS ?B) ''iface'' ''STATE'' (PBool True) = Some (Fault ''listener failed'')"
     "hm_ADDRESS ?B = ''D001:1''"
    by (simp_all add: channel1_eq HMChannel_setEventCallback_def append_callback_def cb_logs_def
        cb_fails_def cb_other_def)
  from event_stops_at_first_failing_callback [where self = ?A and pre = "[(2, ?f)]" and w = world0,
       OF pre] A
  have 1: "fst (event ?A ''iface'' ''STATE'' (PBool True) world0) = Inr PNone \<and>
        cb_calls (snd (snd (event ?A ''iface'' ''STATE'' (PBool True) world0)))
              = [(2, ''D001:1'', ''iface'', ''STATE'', PBool True)]"
    by (simp add: world0_def)
  from event_stops_at_first_failing_callback [where self = ?B and pre = "[(2, ?f)]" and w = world0
       and m = 1 and g = ?g and post = "[cb_other]" and err = "Fault ''listener failed''", OF pre] B
  have 2: "fst (event ?B ''iface'' ''STATE'' (PBool True) world0) = Inl (Fault ''listener failed'') \<and>
        cb_calls (snd (snd (event ?B ''iface'' ''STATE'' (PBool True) world0)))
              = [(2, ''D001:1'', ''iface'', ''STATE'', PBool True), (1, ''D001:1'', ''iface'', ''STATE'', PBool True)]"
    by (simp add: world0_def)
  from 1 2 show ?thesis by simp
qed

text \<open>
  The claim as stated fails: with a failing listener registered before a second one, the
  failure propagates and the second listener is never called.
\<close>

theorem event_counterexample:
  "hm_eventcallbacks (HMChannel_setEventCallback (HMChannel_setEventCallback channel1 cb_fails) cb_logs)
     = [cb_fails, cb_logs]
   \<and> fst (event (HMChannel_setEventCallback (HMChannel_setEventCallback channel1 cb_fails) cb_logs)
            ''iface'' ''STATE'' (PBool True) world0) = Inl (Fault ''listener failed'')
   \<and> cb_calls (snd (snd (event (HMChannel_setEventCallback (HMChannel_setEventCallback channel1 cb_fails) cb_logs)
            ''iface'' ''STATE'' (PBool True) world0)))
      = [(1, ''D001:1'', ''iface'', ''STATE'', PBool True)]"
  by (simp add: channel1_eq HMChannel_setEventCallback_def append_callback_def cb_fails_def
      cb_logs_def event_def PARAM_UNREACH_def world0_def)

section \<open>C6: updateParamset and the unreachable flag\<close>

text \<open>
  C6, as amended. A successful \<^verbatim>\<open>updateParamset\<close>, of any paramset name, sets the
  unreachable flag to the \<^verbatim>\<open>UNREACH\<close> field of the cached values-paramset (\<^verbatim>\<open>None\<close>
  when the field is missing) whenever the cache holds a non-empty values-paramset, and leaves
  the flag as it was otherwise. When the refreshed paramset is the values-paramset, the cached
  one is the one just fetched; a refresh of another name leaves the cached values-paramset as
  it was, so the flag is re-derived from the values fetched earlier.
\<close>

theorem updateParamset_rederives_unreach_from_cache:
  assumes "updateParamset self paramset w = (Inr (PBool True), self', w')"
  shows "(\<forall>d. map_of (hm_paramsets self') PARAMSET_VALUES = Some (PDict d) \<and> d \<noteq> [] \<longrightarrow>
            hm_unreach self' = (case map_of d PARAM_UNREACH of None \<Rightarrow> PNone | Some u \<Rightarrow> u))
       \<and> ((\<forall>d. d \<noteq> [] \<longrightarrow> map_of (hm_paramsets self') PARAMSET_VALUES \<noteq> Some (PDict d)) \<longrightarrow>
            hm_unreach self' = hm_unreach self)
       \<and> (paramset = PARAMSET_VALUES \<longrightarrow>
            (\<exists>p d. hm_proxy self = Some p \<and> d \<noteq> []
               \<and> p (proxy_calls w) (GetParamset (hm_ADDRESS self) paramset) = Inr (PDict d)
               \<and> map_of (hm_paramsets self') PARAMSET_VALUES = Some (PDict d)))
       \<and> (paramset \<noteq> PARAMSET_VALUES \<longrightarrow>
            map_of (hm_paramsets self') PARAMSET_VALUES = map_of (hm_paramsets self) PARAMSET_VALUES)"
proof -
  from assms obtain p returnset where
    p: "hm_proxy self = Some p" and ne: "paramset \<noteq> []" and
    r: "p (proxy_calls w) (GetParamset (hm_ADDRESS self) paramset) = Inr returnset" and
    t: "truthy returnset"
    by (auto simp: updateParamset_def updateParamset_try_def except_False_def proxy_call_def Let_def
        split: option.splits sum.splits prod.splits if_splits)
  define cache where "cache = AList.update paramset returnset (hm_paramsets self)"
  have cache: "map_of cache = (map_of (hm_paramsets self))(paramset \<mapsto> returnset)"
    by (simp add: cache_def update_conv')
  from assms p ne r t have c': "hm_paramsets self' = cache"
    by (auto simp: updateParamset_def updateParamset_try_def except_False_def proxy_call_def Let_def
        cache_def PARAMSETS_def split: option.splits sum.splits prod.splits if_splits)
  show ?thesis
  proof (cases "map_of cache PARAMSET_VALUES")
    case None
    with assms p ne r t cache show ?thesis
      by (auto simp: updateParamset_def updateParamset_try_def except_False_def proxy_call_def Let_def
        cache_def PARAMSETS_def split: option.splits sum.splits prod.splits if_splits)
  next
    case (Some vals)
    show ?thesis
    proof (cases vals)
      case (PDict d)
      with Some assms p ne r t cache show ?thesis
        by (auto simp: updateParamset_def updateParamset_try_def except_False_def proxy_call_def Let_def
          cache_def PARAMSETS_def split: option.splits sum.splits prod.splits if_splits)
    qed (use Some assms p ne r t cache in \<open>auto simp: updateParamset_def updateParamset_try_def except_False_def proxy_call_def Let_def
          cache_def PARAMSETS_def split: option.splits sum.splits prod.splits if_splits\<close>)
  qed
qed

theorem updateParamset_witness:
  "hm_unreach (fst (snd (updateParamset channel3 ''VALUES'' world0))) = PBool True
   \<and> map_of (hm_paramsets (fst (snd (updateParamset (fst channel3_reached) ''MASTER'' (snd channel3_reached)))))
        PARAMSET_VALUES = Some (PDict [(''UNREACH'', PBool True)])
   \<and> hm_unreach (fst (snd (updateParamset (fst channel3_reached) ''MASTER'' (snd channel3_reached))))
       = PBool True"
proof -
  note a = updateParamset_rederives_unreach_from_cache [OF channel3_VALUES]
  note b = updateParamset_rederives_unreach_from_cache [OF channel3_MASTER]
  from a have 1: "hm_unreach (fst (snd (updateParamset channel3 ''VALUES'' world0))) = PBool True"
    by (simp add: channel3_VALUES)
  from b have 2: "map_of (hm_paramsets (fst (snd (updateParamset (fst channel3_reached) ''MASTER'' (snd channel3_reached)))))
        PARAMSET_VALUES = Some (PDict [(''UNREACH'', PBool True)])"
    by (simp add: channel3_MASTER PARAMSET_VALUES_def)
  from b have 3: "hm_unreach (fst (snd (updateParamset (fst channel3_reached) ''MASTER'' (snd channel3_reached))))
       = PBool True"
    by (simp add: channel3_MASTER)
  from 1 2 3 show ?thesis by simp
qed

text \<open>
  The claim as stated fails: \<open>channel3\<close> was last told by an event that it is reachable;
  a successful refresh of \<^verbatim>\<open>MASTER\<close> sets the flag back to the value of the
  values-paramset fetched before the event.
\<close>

theorem updateParamset_counterexample:
  "hm_unreach (fst channel3_reached) = PBool False
   \<and> fst (updateParamset (fst channel3_reached) ''MASTER'' (snd channel3_reached)) = Inr (PBool True)
   \<and> hm_unreach (fst (snd (updateParamset (fst channel3_reached) ''MASTER'' (snd channel3_reached))))
       = PBool True"
  by (simp add: channel3_MASTER) (simp add: channel3_reached_eq)

section \<open>C7: the unreachability of a device\<close>

text \<open>
  C7. \<^verbatim>\<open>HMDevice.UNREACH\<close> is true if and only if the device's own flag is true or the
  \<^verbatim>\<open>UNREACH\<close> of at least one child channel is true, where a channel's \<^verbatim>\<open>UNREACH\<close> is
  the truth of its own flag; it is false when the device's flag and every child's flag are
  \<^verbatim>\<open>False\<close> or \<^verbatim>\<open>None\<close>. The property is a function of the present flags of the
  device and its children: the device keeps no aggregate that could go stale.
\<close>

theorem HMDevice_UNREACH_iff:
  "(HMDevice_UNREACH self \<longleftrightarrow>
      truthy (hm_unreach self) \<or> (\<exists>device \<in> snd ` set (CHILDREN self). HMChannel_UNREACH device))
   \<and> (HMChannel_UNREACH ch \<longleftrightarrow> truthy (hm_unreach ch))
   \<and> (hm_unreach self \<in> {PNone, PBool False}
        \<and> (\<forall>device \<in> snd ` set (CHILDREN self). hm_unreach device \<in> {PNone, PBool False})
       \<longrightarrow> \<not> HMDevice_UNREACH self)"
  by (auto simp: HMDevice_UNREACH_def UNREACH_loop_iff HMChannel_UNREACH_def)

text \<open>
  Before and after the server delivers \<^verbatim>\<open>UNREACH = True\<close> to channel 2: the device's own
  flag stays \<^verbatim>\<open>None\<close> and its \<^verbatim>\<open>UNREACH\<close> goes from false to true.
\<close>

theorem HMDevice_UNREACH_witness:
  "\<not> HMDevice_UNREACH device1 \<and> HMDevice_UNREACH device1_ch2_lost
   \<and> hm_unreach device1_ch2_lost = PNone
   \<and> map (\<lambda>(c, device). hm_unreach device) (CHILDREN device1_ch2_lost) = [PNone, PBool True]"
proof -
  have a: "hm_unreach device1 \<in> {PNone, PBool False}
        \<and> (\<forall>device \<in> snd ` set (CHILDREN device1). hm_unreach device \<in> {PNone, PBool False})"
    by (simp add: device1_eq channel1_eq channel2_eq)
  have b: "map (\<lambda>(c, device). hm_unreach device) (CHILDREN device1_ch2_lost) = [PNone, PBool True]"
          "hm_unreach device1_ch2_lost = PNone"
    by (simp_all add: device1_ch2_lost_def device1_eq channel1_eq channel2_eq event_def PARAM_UNREACH_def world0_def)
  have c: "\<exists>device \<in> snd ` set (CHILDREN device1_ch2_lost). HMChannel_UNREACH device"
    by (simp add: device1_ch2_lost_def device1_eq channel1_eq channel2_eq event_def PARAM_UNREACH_def
        world0_def HMChannel_UNREACH_def)
  from HMDevice_UNREACH_iff [of device1] a have "\<not> HMDevice_UNREACH device1" by blast
  moreover from HMDevice_UNREACH_iff [of device1_ch2_lost] c have "HMDevice_UNREACH device1_ch2_lost" by blast
  ultimately show ?thesis using b by simp
qed

section \<open>C8: a successful putParamset has run the full refresh\<close>

text \<open>
  C8, as amended. Whenever \<^verbatim>\<open>putParamset\<close> returns \<^verbatim>\<open>True\<close>, it has run
  \<^verbatim>\<open>updateParamsets\<close> right after the proxy's \<^verbatim>\<open>putParamset\<close> call and before
  returning: the entity and the world it leaves are those of \<^verbatim>\<open>updateParamset\<close> run for
  every paramset name of the description, in order. Each of these refreshes replaces the cache
  entry of its name by the paramset the proxy returned when the fetch succeeded with a
  non-empty paramset, and leaves the cache as it was when the fetch failed or came back empty:
  the cache is reconciled for the names whose refresh succeeded, and only for those.
\<close>

theorem putParamset_success_runs_updateParamsets:
  assumes "fst (putParamset self paramset data w) = Inr (PBool True)"
  shows "snd (putParamset self paramset data w) =
           snd (updateParamsets self
                 (w\<lparr>proxy_calls := proxy_calls w @ [PutParamset (hm_ADDRESS self) paramset data]\<rparr>))
       \<and> (\<exists>pss. hm_PARAMSETS self = Some pss \<and>
             snd (putParamset self paramset data w) =
               foldl (\<lambda>(s, w') ps. snd (updateParamset s ps w'))
                 (self, w\<lparr>proxy_calls := proxy_calls w @ [PutParamset (hm_ADDRESS self) paramset data]\<rparr>) pss)
       \<and> hm_paramsets (fst (snd (updateParamset s ps v))) =
           (case (if ps = [] then None else hm_proxy s) of
              None \<Rightarrow> hm_paramsets s
            | Some p \<Rightarrow>
                (case p (proxy_calls v) (GetParamset (hm_ADDRESS s) ps) of
                   Inl e \<Rightarrow> hm_paramsets s
                 | Inr returnset \<Rightarrow>
                     if truthy returnset then AList.update ps returnset (hm_paramsets s)
                     else hm_paramsets s))"
proof (intro conjI)
  from assms show 1: "snd (putParamset self paramset data w) =
           snd (updateParamsets self
                 (w\<lparr>proxy_calls := proxy_calls w @ [PutParamset (hm_ADDRESS self) paramset data]\<rparr>))"
    by (auto simp: putParamset_def putParamset_try_def except_False_def call_proxy_def proxy_call_def
        split: option.splits sum.splits prod.splits if_splits)
  from assms obtain pss where p: "hm_PARAMSETS self = Some pss"
    by (auto simp: putParamset_def putParamset_try_def except_False_def split: option.splits)
  with 1 show "\<exists>pss. hm_PARAMSETS self = Some pss \<and>
             snd (putParamset self paramset data w) =
               foldl (\<lambda>(s, w') ps. snd (updateParamset s ps w'))
                 (self, w\<lparr>proxy_calls := proxy_calls w @ [PutParamset (hm_ADDRESS self) paramset data]\<rparr>) pss"
    by (simp add: updateParamsets_def updateParamsets_try_def except_False_def updateParamsets_loop_fold)
  show "hm_paramsets (fst (snd (updateParamset s ps v))) =
           (case (if ps = [] then None else hm_proxy s) of
              None \<Rightarrow> hm_paramsets s
            | Some p \<Rightarrow>
                (case p (proxy_calls v) (GetParamset (hm_ADDRESS s) ps) of
                   Inl e \<Rightarrow> hm_paramsets s
                 | Inr returnset \<Rightarrow>
                     if truthy returnset then AList.update ps returnset (hm_paramsets s)
                     else hm_paramsets s))"
    by (rule updateParamset_cache)
qed

theorem putParamset_success_witness:
  "fst (putParamset (HMGeneric_init ''D001:1'' (Some [''MASTER'', ''VALUES'']) (Some proxy_ok))
         ''VALUES'' (PDict [(''STATE'', PBool True)]) world0) = Inr (PBool True)
   \<and> proxy_calls (snd (snd (putParamset (HMGeneric_init ''D001:1'' (Some [''MASTER'', ''VALUES'']) (Some proxy_ok))
         ''VALUES'' (PDict [(''STATE'', PBool True)]) world0)))
      = [PutParamset ''D001:1'' ''VALUES'' (PDict [(''STATE'', PBool True)]),
         GetParamset ''D001:1'' ''MASTER'', GetParamset ''D001:1'' ''VALUES'']
   \<and> hm_paramsets (fst (snd (putParamset (HMGeneric_init ''D001:1'' (Some [''MASTER'', ''VALUES'']) (Some proxy_ok))
         ''VALUES'' (PDict [(''STATE'', PBool True)]) world0)))
      = [(''MASTER'', PDict [(''UNREACH'', PBool False)]), (''VALUES'', PDict [(''UNREACH'', PBool False)])]
   \<and> snd (putParamset (HMGeneric_init ''D001:1'' (Some [''MASTER'', ''VALUES'']) (Some proxy_ok))
         ''VALUES'' (PDict [(''STATE'', PBool True)]) world0)
      = snd (updateParamsets (HMGeneric_init ''D001:1'' (Some [''MASTER'', ''VALUES'']) (Some proxy_ok))
          \<lparr>proxy_calls = [PutParamset ''D001:1'' ''VALUES'' (PDict [(''STATE'', PBool True)])], cb_calls = []\<rparr>)"
proof -
  let ?self = "HMGeneric_init ''D001:1'' (Some [''MASTER'', ''VALUES'']) (Some proxy_ok)"
  let ?data = "PDict [(''STATE'', PBool True)]"
  have a: "fst (putParamset ?self ''VALUES'' ?data world0) = Inr (PBool True)"
    by (simp add: eval_defs proxy_ok_def)
  have b: "proxy_calls (snd (snd (putParamset ?self ''VALUES'' ?data world0)))
      = [PutParamset ''D001:1'' ''VALUES'' ?data,
         GetParamset ''D001:1'' ''MASTER'', GetParamset ''D001:1'' ''VALUES'']"
    by (simp add: eval_defs proxy_ok_def)
  have b': "hm_paramsets (fst (snd (putParamset ?self ''VALUES'' ?data world0)))
      = [(''MASTER'', PDict [(''UNREACH'', PBool False)]), (''VALUES'', PDict [(''UNREACH'', PBool False)])]"
    by (simp add: eval_defs proxy_ok_def)
  have c: "world0\<lparr>proxy_calls := proxy_calls world0 @ [PutParamset (hm_ADDRESS ?self) ''VALUES'' ?data]\<rparr>
     = \<lparr>proxy_calls = [PutParamset ''D001:1'' ''VALUES'' ?data], cb_calls = []\<rparr>"
    by (simp add: HMGeneric_init_def world0_def)
  from putParamset_success_runs_updateParamsets [OF a]
  have "snd (putParamset ?self ''VALUES'' ?data world0) =
        snd (updateParamsets ?self
              (world0\<lparr>proxy_calls := proxy_calls world0 @ [PutParamset (hm_ADDRESS ?self) ''VALUES'' ?data]\<rparr>))"
    by blast
  with a b b' show ?thesis
    unfolding c by simp
qed

text \<open>
  The claim as stated fails: the push is accepted, the refresh that follows it fails, and
  \<^verbatim>\<open>putParamset\<close> returns \<^verbatim>\<open>True\<close> with the cache still holding the values fetched
  before the push.
\<close>

theorem putParamset_success_counterexample:
  "map_of (hm_paramsets (fst channel4)) ''VALUES'' = Some (PDict [(''STATE'', PBool False)])
   \<and> fst (putParamset (fst channel4) ''VALUES'' (PDict [(''STATE'', PBool True)]) (snd channel4))
       = Inr (PBool True)
   \<and> proxy_calls (snd (snd (putParamset (fst channel4) ''VALUES'' (PDict [(''STATE'', PBool True)])
                               (snd channel4))))
       = [GetParamset ''D001:4'' ''VALUES'',
          PutParamset ''D001:4'' ''VALUES'' (PDict [(''STATE'', PBool True)]),
          GetParamset ''D001:4'' ''VALUES'']
   \<and> hm_paramsets (fst (snd (putParamset (fst channel4) ''VALUES'' (PDict [(''STATE'', PBool True)])
                                (snd channel4))))
       = [(''VALUES'', PDict [(''STATE'', PBool False)])]"
  by (simp add: channel4_eq eval_defs proxy_stalls_def)

section \<open>C9: putParamset rejects an empty payload and an unknown paramset\<close>

text \<open>
  C9. When \<^verbatim>\<open>data\<close> is the empty mapping, or the paramset name is not among the paramset
  names of the entity's description (which includes a description without a paramset list),
  \<^verbatim>\<open>putParamset\<close> returns \<^verbatim>\<open>False\<close> and leaves the entity and the world, hence the
  record of proxy calls, as they were.
\<close>

theorem putParamset_rejects_without_proxy_call:
  assumes "data = PDict [] \<or> (\<forall>pss. hm_PARAMSETS self = Some pss \<longrightarrow> paramset \<notin> set pss)"
  shows "putParamset self paramset data w = (Inr (PBool False), self, w)"
  using assms
  by (auto simp: putParamset_def putParamset_try_def except_False_def split: option.splits)

theorem putParamset_rejects_witness:
  "putParamset (HMGeneric_init ''D001:1'' (Some [''MASTER'']) (Some proxy_ok))
      ''VALUES'' (PDict [(''STATE'', PBool True)]) world0
     = (Inr (PBool False), HMGeneric_init ''D001:1'' (Some [''MASTER'']) (Some proxy_ok), world0)
   \<and> putParamset (HMGeneric_init ''D001:1'' (Some [''MASTER'']) (Some proxy_ok))
      ''MASTER'' (PDict []) world0
     = (Inr (PBool False), HMGeneric_init ''D001:1'' (Some [''MASTER'']) (Some proxy_ok), world0)"
proof -
  let ?self = "HMGeneric_init ''D001:1'' (Some [''MASTER'']) (Some proxy_ok)"
  have a: "PDict [(''STATE'', PBool True)] = PDict [] \<or>
           (\<forall>pss. hm_PARAMSETS ?self = Some pss \<longrightarrow> ''VALUES'' \<notin> set pss)"
    by (simp add: HMGeneric_init_def)
  have b: "PDict [] = PDict [] \<or> (\<forall>pss. hm_PARAMSETS ?self = Some pss \<longrightarrow> ''MASTER'' \<notin> set pss)"
    by simp
  show ?thesis
    using putParamset_rejects_without_proxy_call [OF a, of world0]
          putParamset_rejects_without_proxy_call [OF b, of world0]
    by simp
qed

section \<open>C10: getValue and setValue turn a fault into False\<close>



end
